theory Spec2Isabelle
  imports Complex_Main
begin

section \<open>GLSL values\<close>

text \<open>
  The shaders of \<^verbatim>\<open>main.cpp\<close> compute on GLSL \<^verbatim>\<open>float\<close>, \<^verbatim>\<open>vec2\<close>, \<^verbatim>\<open>vec3\<close>,
  \<^verbatim>\<open>vec4\<close> and \<^verbatim>\<open>mat4\<close>. A \<^verbatim>\<open>float\<close> is read as the real number it stands for:
  rounding, infinities and NaN are outside this development. The built-in functions are
  written out component by component, as the GLSL specification defines them. Where GLSL
  leaves a result undefined (a division by zero, the square root of a negative number,
  \<^verbatim>\<open>normalize\<close> at the zero vector, \<^verbatim>\<open>pow\<close> at a negative base) the definitions take the
  value the operation has in HOL. They stand for the shaders at the inputs where no such
  operation occurs and no rounding decides a comparison or a domain; the inputs at which
  shaders are evaluated below are of that kind.
\<close>

datatype vec2 = Vec2 (v2x: real) (v2y: real)

datatype vec3 = Vec3 (v3x: real) (v3y: real) (v3z: real)

datatype vec4 = Vec4 (v4x: real) (v4y: real) (v4z: real) (v4w: real)

text \<open>A \<^verbatim>\<open>mat4\<close> is stored by columns, as in GLSL and glm.\<close>

datatype mat4 = Mat4 (col0: vec4) (col1: vec4) (col2: vec4) (col3: vec4)

definition mat4_diag :: "real \<Rightarrow> mat4" where
  \<comment> \<open>\<^verbatim>\<open>glm::mat4(d)\<close>\<close>
  "mat4_diag d = Mat4 (Vec4 d 0 0 0) (Vec4 0 d 0 0) (Vec4 0 0 d 0) (Vec4 0 0 0 d)"

definition mat4_mul_vec4 :: "mat4 \<Rightarrow> vec4 \<Rightarrow> vec4" where
  \<comment> \<open>\<^verbatim>\<open>m * v\<close>\<close>
  "mat4_mul_vec4 m v =
     Vec4 (v4x (col0 m) * v4x v + v4x (col1 m) * v4y v + v4x (col2 m) * v4z v + v4x (col3 m) * v4w v)
          (v4y (col0 m) * v4x v + v4y (col1 m) * v4y v + v4y (col2 m) * v4z v + v4y (col3 m) * v4w v)
          (v4z (col0 m) * v4x v + v4z (col1 m) * v4y v + v4z (col2 m) * v4z v + v4z (col3 m) * v4w v)
          (v4w (col0 m) * v4x v + v4w (col1 m) * v4y v + v4w (col2 m) * v4z v + v4w (col3 m) * v4w v)"

definition vec4_of :: "vec3 \<Rightarrow> real \<Rightarrow> vec4" where
  \<comment> \<open>\<^verbatim>\<open>vec4(v, w)\<close>\<close>
  "vec4_of v w = Vec4 (v3x v) (v3y v) (v3z v) w"

definition xyz :: "vec4 \<Rightarrow> vec3" where
  \<comment> \<open>the swizzles \<^verbatim>\<open>.xyz\<close> and \<^verbatim>\<open>.rgb\<close>\<close>
  "xyz v = Vec3 (v4x v) (v4y v) (v4z v)"

definition xz :: "vec3 \<Rightarrow> vec2" where
  \<comment> \<open>the swizzle \<^verbatim>\<open>.xz\<close>\<close>
  "xz v = Vec2 (v3x v) (v3z v)"

definition add3 :: "vec3 \<Rightarrow> vec3 \<Rightarrow> vec3" where
  "add3 a b = Vec3 (v3x a + v3x b) (v3y a + v3y b) (v3z a + v3z b)"

definition sub3 :: "vec3 \<Rightarrow> vec3 \<Rightarrow> vec3" where
  "sub3 a b = Vec3 (v3x a - v3x b) (v3y a - v3y b) (v3z a - v3z b)"

definition mul3 :: "vec3 \<Rightarrow> vec3 \<Rightarrow> vec3" where
  \<comment> \<open>\<^verbatim>\<open>a * b\<close> on two vectors is component-wise\<close>
  "mul3 a b = Vec3 (v3x a * v3x b) (v3y a * v3y b) (v3z a * v3z b)"

definition scale3 :: "vec3 \<Rightarrow> real \<Rightarrow> vec3" where
  \<comment> \<open>\<^verbatim>\<open>v * s\<close> and \<^verbatim>\<open>s * v\<close>\<close>
  "scale3 v s = Vec3 (v3x v * s) (v3y v * s) (v3z v * s)"

definition div3 :: "vec3 \<Rightarrow> real \<Rightarrow> vec3" where
  \<comment> \<open>\<^verbatim>\<open>v / s\<close>\<close>
  "div3 v s = Vec3 (v3x v / s) (v3y v / s) (v3z v / s)"

definition dot :: "vec3 \<Rightarrow> vec3 \<Rightarrow> real" where
  "dot a b = v3x a * v3x b + v3y a * v3y b + v3z a * v3z b"

definition length3 :: "vec3 \<Rightarrow> real" where
  \<comment> \<open>\<^verbatim>\<open>length(v)\<close>\<close>
  "length3 v = sqrt (dot v v)"

definition normalize :: "vec3 \<Rightarrow> vec3" where
  \<comment> \<open>\<^verbatim>\<open>normalize(v)\<close> is \<^verbatim>\<open>v / length(v)\<close>; GLSL leaves it undefined at the zero vector\<close>
  "normalize v = div3 v (length3 v)"

definition pow :: "real \<Rightarrow> real \<Rightarrow> real" where
  \<comment> \<open>\<^verbatim>\<open>pow(x, y)\<close>; GLSL leaves it undefined for \<^verbatim>\<open>x < 0\<close>\<close>
  "pow x y = x powr y"

section \<open>Wave field\<close>

text \<open>
  \<^verbatim>\<open>get_height\<close>, \<^verbatim>\<open>dhdx\<close> and \<^verbatim>\<open>dhdy\<close> of \<^verbatim>\<open>water_vertex_shader_source\<close>. The vertex
  attribute \<^verbatim>\<open>in_position\<close> and the uniform \<^verbatim>\<open>time\<close>, globals of the shader, are
  arguments here.
\<close>

definition water_get_height :: "vec2 \<Rightarrow> real \<Rightarrow> real" where
  "water_get_height in_position time =
     (let base_height = 5;
          add = 0.5 * sin (v2x in_position + time) + 0.2 * cos (v2y in_position + 3 * time)
                + 0.1 * sin (v2x in_position + 2 * v2y in_position + time)
      in base_height + add)"

definition water_dhdx :: "vec2 \<Rightarrow> real \<Rightarrow> real" where
  "water_dhdx in_position time =
     0.5 * cos (v2x in_position + time) + 0.1 * cos (v2x in_position + 2 * v2y in_position + time)"

definition water_dhdy :: "vec2 \<Rightarrow> real \<Rightarrow> real" where
  "water_dhdy in_position time =
     - 0.2 * sin (v2y in_position + 3 * time) + 0.2 * cos (v2x in_position + 2 * v2y in_position + time)"

text \<open>The same three functions, as \<^verbatim>\<open>caustic_vertex_shader_source\<close> declares them again.\<close>

definition caustic_get_height :: "vec2 \<Rightarrow> real \<Rightarrow> real" where
  "caustic_get_height in_position time =
     (let base_height = 5;
          add = 0.5 * sin (v2x in_position + time) + 0.2 * cos (v2y in_position + 3 * time)
                + 0.1 * sin (v2x in_position + 2 * v2y in_position + time)
      in base_height + add)"

definition caustic_dhdx :: "vec2 \<Rightarrow> real \<Rightarrow> real" where
  "caustic_dhdx in_position time =
     0.5 * cos (v2x in_position + time) + 0.1 * cos (v2x in_position + 2 * v2y in_position + time)"

definition caustic_dhdy :: "vec2 \<Rightarrow> real \<Rightarrow> real" where
  "caustic_dhdy in_position time =
     - 0.2 * sin (v2y in_position + 3 * time) + 0.2 * cos (v2x in_position + 2 * v2y in_position + time)"

section \<open>Optical model and refraction: the water fragment shader\<close>

text \<open>
  The uniforms and the interpolated inputs of \<^verbatim>\<open>water_fragment_shader_source\<close>, which its
  functions read as globals. A \<^verbatim>\<open>sampler2D\<close> is the function from a texture coordinate to
  the texel \<^verbatim>\<open>texture\<close> returns there, a \<^verbatim>\<open>samplerCube\<close> the function from a direction.
\<close>

record water_fragment =
  w_camera_position :: vec3
  w_ambient_light :: vec3
  w_sun_light :: vec3
  w_sun_direction :: vec3
  w_glossiness :: real
  w_roughness :: real
  w_tex :: "vec3 \<Rightarrow> vec4"
  w_floor_tex :: "vec2 \<Rightarrow> vec4"
  w_caustics_tex :: "vec2 \<Rightarrow> vec4"
  w_floor_width :: real
  w_floor_height :: real
  w_position :: vec3
  w_normal :: vec3

definition water_diffuse :: "vec3 \<Rightarrow> real" where
  "water_diffuse direction = max 0.0 (dot (Vec3 0.0 1.0 0.0) direction)"

definition water_reflect :: "water_fragment \<Rightarrow> vec3 \<Rightarrow> vec3" where
  "water_reflect g direction =
     (let cosine = dot (w_normal g) direction
      in sub3 (scale3 (scale3 (w_normal g) 2.0) cosine) direction)"

definition water_get_floor :: "water_fragment \<Rightarrow> vec3 \<Rightarrow> vec3" where
  "water_get_floor g pos =
     (let caustics_data = w_caustics_tex g (Vec2 (v3x pos / 40.0) (v3z pos / 8.0));
          albedo = xyz (w_floor_tex g (Vec2 (v3x pos / 4.0) (v3z pos / 4.0)));
          albedo = add3 albedo (scale3 (xyz caustics_data) (v4w caustics_data));
          color = mul3 albedo (w_ambient_light g);
          sun_impact = water_diffuse (w_sun_direction g);
          color = add3 color (mul3 (scale3 albedo sun_impact) (w_sun_light g))
      in color)"

definition water_get_refract :: "water_fragment \<Rightarrow> vec3 \<Rightarrow> real \<Rightarrow> real \<Rightarrow> vec3" where
  "water_get_refract g direction n1 n2 =
     (let cosine = dot (normalize (w_normal g)) direction;
          sine = sqrt (1 - cosine * cosine);
          refract_sine = n1 * sine / n2;
          refract_cosine = sqrt (1 - refract_sine * refract_sine);
          h = v3y (w_position g);
          straight_floor_x = - v3x direction * h / v3y direction + v3x (w_position g);
          straight_floor_z = - v3z direction * h / v3y direction + v3z (w_position g);
          projection_position = Vec3 (v3x (w_position g)) 0.0 (v3y (w_position g));
          straight_projection = sub3 (Vec3 straight_floor_x 0.0 straight_floor_z) projection_position;
          refracted_projection =
            div3 (scale3 (div3 (scale3 straight_projection n1) n2) cosine) refract_cosine;
          refracted_position = add3 projection_position refracted_projection
      in if v3x refracted_position > 0 \<and> v3z refracted_position > 0
            \<and> v3x refracted_position < w_floor_width g
            \<and> v3z refracted_position < w_floor_height g
         then water_get_floor g refracted_position
         else (let refracted_ray = normalize (sub3 refracted_position (w_position g))
               in xyz (w_tex g refracted_ray)))"

definition water_coef :: "real \<Rightarrow> real \<Rightarrow> real \<Rightarrow> real" where
  \<comment> \<open>the three assignments to \<^verbatim>\<open>coef\<close> in \<^verbatim>\<open>main\<close>, as a function of the locals they read\<close>
  "water_coef n1 n2 cosine =
     (let coef = (n1 - n2) / (n1 + n2);
          coef = coef * coef;
          coef = coef + (1 - coef) * pow (1 - cosine) 5
      in coef)"

definition water_main :: "water_fragment \<Rightarrow> vec4" where
  \<comment> \<open>the value \<^verbatim>\<open>main\<close> assigns to \<^verbatim>\<open>out_color\<close>\<close>
  "water_main g =
     (let view_direction = normalize (sub3 (w_camera_position g) (w_position g));
          n1 = 1.0;
          n2 = 1.333;
          cosine = dot (normalize (w_normal g)) (w_sun_direction g);
          coef = water_coef n1 n2 cosine;
          reflect_color = scale3 (xyz (w_tex g (water_reflect g view_direction))) coef;
          refract_color = scale3 (water_get_refract g view_direction n1 n2) (1 - coef);
          color = add3 reflect_color refract_color
      in vec4_of color 1.0)"

section \<open>Caustic projection: the caustic shaders\<close>

definition caustic_get_refract :: "vec3 \<Rightarrow> real \<Rightarrow> real \<Rightarrow> vec3 \<Rightarrow> vec3 \<Rightarrow> vec3" where
  "caustic_get_refract direction n1 n2 normal position =
     (let cosine = dot (normalize normal) direction;
          sine = sqrt (1 - cosine * cosine);
          refract_sine = n1 * sine / n2;
          refract_cosine = sqrt (1 - refract_sine * refract_sine);
          h = v3y position;
          straight_floor_x = - v3x direction * h / v3y direction + v3x position;
          straight_floor_z = - v3z direction * h / v3y direction + v3z position;
          projection_position = Vec3 (v3x position) 0.0 (v3y position);
          straight_projection = sub3 (Vec3 straight_floor_x 0.0 straight_floor_z) projection_position;
          refracted_projection =
            div3 (scale3 (div3 (scale3 straight_projection n1) n2) cosine) refract_cosine;
          refracted_position = add3 projection_position refracted_projection
      in refracted_position)"

text \<open>
  \<^verbatim>\<open>main\<close> of \<^verbatim>\<open>caustic_vertex_shader_source\<close>. The shader declares no \<^verbatim>\<open>out\<close> variable:
  \<^verbatim>\<open>position\<close> and \<^verbatim>\<open>normal\<close> are locals of \<^verbatim>\<open>main\<close>, and \<^verbatim>\<open>gl_Position\<close>, returned here,
  is all that leaves the vertex stage.
\<close>

definition caustic_vertex_main :: "mat4 \<Rightarrow> real \<Rightarrow> vec3 \<Rightarrow> vec2 \<Rightarrow> vec4" where
  "caustic_vertex_main model time sun_direction in_position =
     (let position = Vec3 (v2x in_position) (caustic_get_height in_position time) (v2y in_position);
          position = xyz (mat4_mul_vec4 model (vec4_of position 1.0));
          normal = normalize (Vec3 (- caustic_dhdx in_position time) 1.0
                                   (- caustic_dhdy in_position time));
          texcoord = xz (caustic_get_refract sun_direction 1.0 1.33 normal position);
          texcoord = Vec2 (v2x texcoord / 40.0) (v2y texcoord);
          texcoord = Vec2 (v2x texcoord) (v2y texcoord / 8.0)
      in Vec4 (v2x texcoord * 2.0 - 1.0) (v2y texcoord * 2.0 - 1.0) 0.0 1.0)"

definition caustic_coef :: "real \<Rightarrow> real \<Rightarrow> real \<Rightarrow> real" where
  \<comment> \<open>the three assignments to \<^verbatim>\<open>coef\<close> in \<^verbatim>\<open>main\<close> of the caustic fragment shader\<close>
  "caustic_coef n1 n2 cosine =
     (let coef = (n1 - n2) / (n1 + n2);
          coef = coef * coef;
          coef = coef + (1 - coef) * pow (1 - cosine) 5
      in coef)"

text \<open>
  \<^verbatim>\<open>main\<close> of \<^verbatim>\<open>caustic_fragment_shader_source\<close>. Its input \<^verbatim>\<open>in vec3 normal\<close> has no
  matching output in the vertex shader, so no stage writes it; it is an argument here.
\<close>

definition caustic_fragment_main :: "vec3 \<Rightarrow> vec3 \<Rightarrow> vec3 \<Rightarrow> vec4" where
  "caustic_fragment_main normal sun_light sun_direction =
     (let n1 = 1.0;
          n2 = 1.333;
          cosine = dot (normalize normal) sun_direction;
          coef = caustic_coef n1 n2 cosine;
          color = scale3 sun_light (1 - coef)
      in vec4_of sun_light (1.0 - coef))"

section \<open>The render loop\<close>

text \<open>
  The body of \<^verbatim>\<open>while (running)\<close> in \<^verbatim>\<open>main\<close>. The OpenGL calls of one iteration are a
  list of commands, run on the part of the OpenGL state that decides which buffer a
  clear or a draw call writes and which textures a draw call samples. The values of the
  other uniforms (matrices, time, light, material) do not enter that state and are left
  out of the commands that set them.
\<close>

datatype program = Caustics_program | Env_program | Floor_program | Water_program

datatype framebuffer = Default_framebuffer | Caustics_fbo

datatype texture_object = Tex | Env_tex | Caustics_tex

datatype texture_target = GL_TEXTURE_2D | GL_TEXTURE_CUBE_MAP

datatype capability = GL_BLEND | GL_CULL_FACE | GL_DEPTH_TEST

datatype gl_command =
    UseProgram program
  | BindDrawFramebuffer framebuffer
  | ClearColor real real real real
  | Clear
  | Viewport int int int int
  | Enable capability
  | Disable capability
  | BlendFunc_SRC_ALPHA_ONE
  | Uniform program string
  | Uniform1i program string nat
  | ActiveTexture nat
  | BindTexture texture_target texture_object
  | BindVertexArray
  | BindBuffer
  | DrawArrays
  | SwapWindow

record gl_state =
  current_program :: program
  draw_framebuffer :: framebuffer
  clear_color :: vec4
  enabled :: "capability \<Rightarrow> bool"
  sampler_unit :: "program \<Rightarrow> string \<Rightarrow> nat"
  active_texture :: nat
  bound_texture :: "nat \<Rightarrow> texture_target \<Rightarrow> texture_object option"

datatype gl_event =
    Cleared framebuffer vec4
  | Drawn program framebuffer "texture_object option list"
  | Swapped

definition samplers :: "program \<Rightarrow> (string \<times> texture_target) list" where
  \<comment> \<open>the sampler uniforms each fragment shader declares and reads\<close>
  "samplers p = (case p of
       Caustics_program \<Rightarrow> []
     | Env_program \<Rightarrow> [(''tex'', GL_TEXTURE_CUBE_MAP)]
     | Floor_program \<Rightarrow> [(''tex'', GL_TEXTURE_2D), (''caustics_tex'', GL_TEXTURE_2D)]
     | Water_program \<Rightarrow> [(''tex'', GL_TEXTURE_CUBE_MAP), (''floor_tex'', GL_TEXTURE_2D),
                          (''caustics_tex'', GL_TEXTURE_2D)])"

definition sampled :: "gl_state \<Rightarrow> texture_object option list" where
  \<comment> \<open>the textures a draw call of the current program samples\<close>
  "sampled s = map (\<lambda>(name, target). bound_texture s (sampler_unit s (current_program s) name) target)
                   (samplers (current_program s))"

definition color_attachment :: "framebuffer \<Rightarrow> texture_object option" where
  \<comment> \<open>\<^verbatim>\<open>glFramebufferTexture2D\<close> attaches \<^verbatim>\<open>caustics_tex\<close> to \<^verbatim>\<open>caustics_fbo\<close> before the loop\<close>
  "color_attachment f = (case f of Default_framebuffer \<Rightarrow> None | Caustics_fbo \<Rightarrow> Some Caustics_tex)"

fun gl_exec :: "gl_command \<Rightarrow> gl_state \<Rightarrow> gl_event list \<times> gl_state" where
  "gl_exec (UseProgram p) s = ([], s\<lparr>current_program := p\<rparr>)"
| "gl_exec (BindDrawFramebuffer f) s = ([], s\<lparr>draw_framebuffer := f\<rparr>)"
| "gl_exec (ClearColor r g b a) s = ([], s\<lparr>clear_color := Vec4 r g b a\<rparr>)"
| "gl_exec Clear s = ([Cleared (draw_framebuffer s) (clear_color s)], s)"
| "gl_exec (Viewport x y w h) s = ([], s)"
| "gl_exec (Enable c) s = ([], s\<lparr>enabled := (enabled s)(c := True)\<rparr>)"
| "gl_exec (Disable c) s = ([], s\<lparr>enabled := (enabled s)(c := False)\<rparr>)"
| "gl_exec BlendFunc_SRC_ALPHA_ONE s = ([], s)"
| "gl_exec (Uniform p name) s = ([], s)"
| "gl_exec (Uniform1i p name v) s =
     ([], if p = current_program s
          then s\<lparr>sampler_unit := (sampler_unit s)(p := (sampler_unit s p)(name := v))\<rparr>
          else s)"
| "gl_exec (ActiveTexture u) s = ([], s\<lparr>active_texture := u\<rparr>)"
| "gl_exec (BindTexture target t) s =
     ([], s\<lparr>bound_texture := (bound_texture s)(active_texture s :=
                 (bound_texture s (active_texture s))(target := Some t))\<rparr>)"
| "gl_exec BindVertexArray s = ([], s)"
| "gl_exec BindBuffer s = ([], s)"
| "gl_exec DrawArrays s = ([Drawn (current_program s) (draw_framebuffer s) (sampled s)], s)"
| "gl_exec SwapWindow s = ([Swapped], s)"

fun gl_run :: "gl_command list \<Rightarrow> gl_state \<Rightarrow> gl_event list \<times> gl_state" where
  "gl_run [] s = ([], s)"
| "gl_run (c # cs) s =
     (case gl_exec c s of (es, s') \<Rightarrow> (case gl_run cs s' of (es', s'') \<Rightarrow> (es @ es', s'')))"

definition caustics_resolution :: int where
  "caustics_resolution = 512"

definition caustics_pass :: "gl_command list" where
  "caustics_pass =
     [UseProgram Caustics_program,
      BindDrawFramebuffer Caustics_fbo,
      ClearColor 0 0 0 0,
      Clear,
      Viewport 0 0 caustics_resolution caustics_resolution,
      Enable GL_BLEND,
      BlendFunc_SRC_ALPHA_ONE,
      Uniform Caustics_program ''model'',
      Uniform Caustics_program ''time'',
      Uniform Caustics_program ''sun_direction'',
      Uniform Caustics_program ''sun_light'',
      BindVertexArray,
      BindBuffer,
      DrawArrays]"

definition environment_pass :: "int \<Rightarrow> int \<Rightarrow> gl_command list" where
  "environment_pass width height =
     [UseProgram Env_program,
      BindDrawFramebuffer Default_framebuffer,
      ClearColor 0.8 0.8 1 0,
      Viewport 0 0 width height,
      Clear,
      Enable GL_CULL_FACE,
      Disable GL_DEPTH_TEST,
      Disable GL_BLEND,
      Uniform1i Env_program ''tex'' 1,
      Uniform Env_program ''model'',
      Uniform Env_program ''view'',
      ActiveTexture 1,
      BindTexture GL_TEXTURE_CUBE_MAP Env_tex,
      BindVertexArray,
      BindBuffer,
      DrawArrays]"

definition floor_pass :: "gl_command list" where
  "floor_pass =
     [UseProgram Floor_program,
      Enable GL_DEPTH_TEST,
      Uniform Floor_program ''model'',
      Uniform Floor_program ''projection'',
      Uniform Floor_program ''view'',
      Uniform Floor_program ''sun_direction'',
      Uniform Floor_program ''camera_position'',
      Uniform1i Floor_program ''tex'' 0,
      Uniform1i Floor_program ''caustics_tex'' 2,
      Uniform Floor_program ''ambient_light'',
      Uniform Floor_program ''sun_light'',
      Uniform Floor_program ''glossiness'',
      Uniform Floor_program ''roughness'',
      BindVertexArray,
      BindBuffer,
      ActiveTexture 0,
      BindTexture GL_TEXTURE_2D Tex,
      ActiveTexture 2,
      BindTexture GL_TEXTURE_2D Caustics_tex,
      DrawArrays]"

definition water_pass :: "gl_command list" where
  "water_pass =
     [UseProgram Water_program,
      Enable GL_DEPTH_TEST,
      Uniform Water_program ''model'',
      Uniform Water_program ''projection'',
      Uniform Water_program ''view'',
      Uniform Water_program ''sun_direction'',
      Uniform Water_program ''camera_position'',
      Uniform Water_program ''time'',
      Uniform Water_program ''ambient_light'',
      Uniform Water_program ''sun_light'',
      Uniform Water_program ''glossiness'',
      Uniform Water_program ''roughness'',
      Uniform1i Water_program ''tex'' 1,
      Uniform1i Water_program ''floor_tex'' 0,
      Uniform1i Water_program ''caustics_tex'' 2,
      Uniform Water_program ''floor_width'',
      Uniform Water_program ''floor_height'',
      BindVertexArray,
      BindBuffer,
      ActiveTexture 0,
      BindTexture GL_TEXTURE_2D Tex,
      ActiveTexture 1,
      BindTexture GL_TEXTURE_CUBE_MAP Env_tex,
      ActiveTexture 2,
      BindTexture GL_TEXTURE_2D Caustics_tex,
      DrawArrays]"

text \<open>
  The events \<^verbatim>\<open>SDL_PollEvent\<close> delivers, and the variables of \<^verbatim>\<open>main\<close> that the event
  loop writes and that decide the OpenGL calls of the iteration. The key table, the pause
  flag, the time and the camera only feed the values of uniforms and are left out.
\<close>

datatype sdl_event =
    SDL_QUIT
  | SDL_WINDOWEVENT_RESIZED int int
  | SDL_KEYDOWN int
  | SDL_KEYUP int
  | SDL_other

record host =
  running :: bool
  width :: int
  height :: int

fun handle_event :: "sdl_event \<Rightarrow> host \<Rightarrow> gl_command list \<times> host" where
  "handle_event SDL_QUIT h = ([], h\<lparr>running := False\<rparr>)"
| "handle_event (SDL_WINDOWEVENT_RESIZED w ht) h =
     ([Viewport 0 0 w ht], h\<lparr>width := w, height := ht\<rparr>)"
| "handle_event (SDL_KEYDOWN k) h = ([], h)"
| "handle_event (SDL_KEYUP k) h = ([], h)"
| "handle_event SDL_other h = ([], h)"

fun poll_events :: "sdl_event list \<Rightarrow> host \<Rightarrow> gl_command list \<times> host" where
  "poll_events [] h = ([], h)"
| "poll_events (e # es) h =
     (case handle_event e h of (cs, h') \<Rightarrow> (case poll_events es h' of (cs', h'') \<Rightarrow> (cs @ cs', h'')))"

definition loop_iteration ::
  "sdl_event list \<Rightarrow> host \<times> gl_state \<Rightarrow> (gl_event list \<times> host \<times> gl_state) option" where
  \<comment> \<open>\<open>None\<close>: the iteration leaves the loop at \<^verbatim>\<open>if (!running) break;\<close>\<close>
  "loop_iteration events hs =
     (case poll_events events (fst hs) of (cs, h) \<Rightarrow>
        (case gl_run cs (snd hs) of (es, s) \<Rightarrow>
           if \<not> running h then None
           else (case gl_run (caustics_pass @ environment_pass (width h) (height h)
                              @ floor_pass @ water_pass @ [SwapWindow]) s
                 of (es', s') \<Rightarrow> Some (es @ es', h, s'))))"

definition writes :: "gl_event \<Rightarrow> texture_object set" where
  "writes e = (case e of
       Cleared f c \<Rightarrow> set_option (color_attachment f)
     | Drawn p f ts \<Rightarrow> set_option (color_attachment f)
     | Swapped \<Rightarrow> {})"

definition reads :: "gl_event \<Rightarrow> texture_object set" where
  "reads e = (case e of
       Cleared f c \<Rightarrow> {}
     | Drawn p f ts \<Rightarrow> \<Union> (set (map set_option ts))
     | Swapped \<Rightarrow> {})"

section \<open>The formulas of the specification\<close>

text \<open>
  The definitions of this section follow the words of the specification, not the source;
  the shaders are compared with them below.
\<close>

definition schlick_R :: "real \<Rightarrow> real \<Rightarrow> real \<Rightarrow> real" where
  \<comment> \<open>Schlick's approximation, \<open>R = R0 + (1 - R0)(1 - cos_theta)^5\<close> with
      \<open>R0 = ((n1 - n2) / (n1 + n2))^2\<close>\<close>
  "schlick_R n1 n2 cos_theta =
     (let R0 = ((n1 - n2) / (n1 + n2))\<^sup>2 in R0 + (1 - R0) * (1 - cos_theta) ^ 5)"

definition straight_floor_hit :: "vec3 \<Rightarrow> vec3 \<Rightarrow> vec3" where
  \<comment> \<open>the point where the straight ray through \<open>P\<close> along \<open>D\<close> meets the plane \<open>y = 0\<close>\<close>
  "straight_floor_hit D P =
     Vec3 (v3x P - v3x D * v3y P / v3y D) 0 (v3z P - v3z D * v3y P / v3y D)"

definition spec_landing_point :: "vec3 \<Rightarrow> real \<Rightarrow> real \<Rightarrow> vec3 \<Rightarrow> vec3 \<Rightarrow> vec3" where
  \<comment> \<open>steps 1 to 5 of the refraction approximation\<close>
  "spec_landing_point D n1 n2 N P =
     (let cos_i = dot N D;
          sin_i = sqrt (max 0 (1 - cos_i\<^sup>2));
          sin_t = n1 * sin_i / n2;
          cos_t = sqrt (max 0 (1 - sin_t\<^sup>2));
          P_horizontal_projection = Vec3 (v3x P) 0 (v3z P);
          straight_offset = sub3 (straight_floor_hit D P) P_horizontal_projection;
          refracted_offset = scale3 straight_offset ((n1 / n2) * (cos_i / cos_t))
      in add3 P_horizontal_projection refracted_offset)"

definition spec_water_refract :: "water_fragment \<Rightarrow> vec3 \<Rightarrow> real \<Rightarrow> real \<Rightarrow> vec3" where
  \<comment> \<open>the floor at the landing point of the specification when it lies on the floor,
      the backdrop along the ray from \<open>P\<close> to it otherwise\<close>
  "spec_water_refract g D n1 n2 =
     (let landing = spec_landing_point D n1 n2 (w_normal g) (w_position g)
      in if 0 < v3x landing \<and> v3x landing < w_floor_width g
            \<and> 0 < v3z landing \<and> v3z landing < w_floor_height g
         then water_get_floor g landing
         else xyz (w_tex g (normalize (sub3 landing (w_position g)))))"

definition spec_water_main :: "water_fragment \<Rightarrow> vec4" where
  \<comment> \<open>the water pass with the reflect/transmit weights taken against the viewer direction\<close>
  "spec_water_main g =
     (let V = normalize (sub3 (w_camera_position g) (w_position g));
          cos_theta = dot (normalize (w_normal g)) V;
          reflect_weight = schlick_R 1.0 1.333 cos_theta;
          transmit_weight = 1 - reflect_weight;
          reflected_color = xyz (w_tex g (water_reflect g V));
          transmitted_color = water_get_refract g V 1.0 1.333
      in vec4_of (add3 (scale3 reflected_color reflect_weight)
                       (scale3 transmitted_color transmit_weight)) 1)"

definition spec_caustic_value :: "real \<Rightarrow> vec3 \<Rightarrow> vec3 \<Rightarrow> vec2 \<Rightarrow> vec4" where
  \<comment> \<open>\<open>(light_color, transmit_weight)\<close> at the wave-field normal of the vertex\<close>
  "spec_caustic_value time light_direction light_color in_position =
     (let N = normalize (Vec3 (- caustic_dhdx in_position time) 1
                              (- caustic_dhdy in_position time));
          R = schlick_R 1.0 1.333 (dot N light_direction);
          transmit_weight = 1 - R
      in vec4_of light_color transmit_weight)"

definition spec_caustic_vertex_main :: "mat4 \<Rightarrow> real \<Rightarrow> vec3 \<Rightarrow> vec2 \<Rightarrow> vec4" where
  \<comment> \<open>the caustic projection with the index pair of the optical model, \<open>1.0\<close> and \<open>1.333\<close>\<close>
  "spec_caustic_vertex_main model time light_direction in_position =
     (let position = xyz (mat4_mul_vec4 model
            (Vec4 (v2x in_position) (caustic_get_height in_position time) (v2y in_position) 1));
          normal = normalize (Vec3 (- caustic_dhdx in_position time) 1
                                   (- caustic_dhdy in_position time));
          landing = caustic_get_refract light_direction 1.0 1.333 normal position
      in Vec4 (v3x landing / 40 * 2 - 1) (v3z landing / 8 * 2 - 1) 0 1)"

definition spec_frame :: "gl_event list" where
  \<comment> \<open>the five stages of a frame: caustics (clear, then draw), backdrop, floor, water, present\<close>
  "spec_frame =
     [Cleared Caustics_fbo (Vec4 0 0 0 0),
      Drawn Caustics_program Caustics_fbo [],
      Cleared Default_framebuffer (Vec4 0.8 0.8 1 0),
      Drawn Env_program Default_framebuffer [Some Env_tex],
      Drawn Floor_program Default_framebuffer [Some Tex, Some Caustics_tex],
      Drawn Water_program Default_framebuffer [Some Env_tex, Some Tex, Some Caustics_tex],
      Swapped]"

section \<open>Sample inputs\<close>

text \<open>
  A water fragment over the floor of \<^verbatim>\<open>main\<close> (\<open>40\<close> by \<open>8\<close>) whose floor texture returns
  its own texture coordinate, whose caustic buffer is empty, whose backdrop has one colour
  and whose light is ambient only, so that the colour \<^verbatim>\<open>get_floor\<close> returns shows where
  the floor was sampled.
\<close>

definition probe_fragment :: "vec3 \<Rightarrow> vec3 \<Rightarrow> vec3 \<Rightarrow> vec3 \<Rightarrow> water_fragment" where
  "probe_fragment camera sun P N =
     \<lparr>w_camera_position = camera,
      w_ambient_light = Vec3 1 1 1,
      w_sun_light = Vec3 0 0 0,
      w_sun_direction = sun,
      w_glossiness = 3.0,
      w_roughness = 0.05,
      w_tex = (\<lambda>d. Vec4 9 9 9 1),
      w_floor_tex = (\<lambda>p. Vec4 (v2x p) (v2y p) 0 1),
      w_caustics_tex = (\<lambda>p. Vec4 0 0 0 0),
      w_floor_width = 40,
      w_floor_height = 8,
      w_position = P,
      w_normal = N\<rparr>"

text \<open>
  A water fragment under the lights of \<^verbatim>\<open>main\<close> whose backdrop returns the direction it
  is sampled along, whose floor texture returns its texture coordinate and whose caustic
  buffer holds white light weighted by the first texture coordinate, so that the colour
  \<^verbatim>\<open>get_refract\<close> returns shows which texture was sampled and where.
\<close>

definition lit_fragment :: "vec3 \<Rightarrow> vec3 \<Rightarrow> vec3 \<Rightarrow> vec3 \<Rightarrow> water_fragment" where
  "lit_fragment camera sun P N =
     \<lparr>w_camera_position = camera,
      w_ambient_light = Vec3 0.2 0.2 0.2,
      w_sun_light = Vec3 1.0 0.9 0.8,
      w_sun_direction = sun,
      w_glossiness = 3.0,
      w_roughness = 0.05,
      w_tex = (\<lambda>d. Vec4 (v3x d) (v3y d) (v3z d) 1),
      w_floor_tex = (\<lambda>p. Vec4 (v2x p) (v2y p) (1 / 2) 1),
      w_caustics_tex = (\<lambda>p. Vec4 1 1 1 (v2x p)),
      w_floor_width = 40,
      w_floor_height = 8,
      w_position = P,
      w_normal = N\<rparr>"

text \<open>
  The OpenGL state the set-up code of \<^verbatim>\<open>main\<close> leaves when the loop is entered (the last
  program used, the last framebuffer and textures bound, the defaults otherwise), and the
  host variables for a window of the given size.
\<close>

definition entry_gl_state :: gl_state where
  "entry_gl_state =
     \<lparr>current_program = Floor_program,
      draw_framebuffer = Caustics_fbo,
      clear_color = Vec4 0 0 0 0,
      enabled = (\<lambda>c. False),
      sampler_unit = (\<lambda>p name. 0),
      active_texture = 2,
      bound_texture = (\<lambda>u target.
        if u = 0 \<and> target = GL_TEXTURE_2D then Some Tex
        else if u = 1 \<and> target = GL_TEXTURE_CUBE_MAP then Some Env_tex
        else if u = 2 \<and> target = GL_TEXTURE_2D then Some Caustics_tex
        else None)\<rparr>"

definition entry_host :: "int \<Rightarrow> int \<Rightarrow> host" where
  "entry_host w h = \<lparr>running = True, width = w, height = h\<rparr>"

section \<open>Properties of the wave field\<close>

lemma water_height_formula:
  "water_get_height (Vec2 x z) t
     = 5 + 0.5 * sin (x + t) + 0.2 * cos (z + 3 * t) + 0.1 * sin (x + 2 * z + t)"
  by (simp add: water_get_height_def Let_def)

lemma caustic_height_formula:
  "caustic_get_height (Vec2 x z) t
     = 5 + 0.5 * sin (x + t) + 0.2 * cos (z + 3 * t) + 0.1 * sin (x + 2 * z + t)"
  by (simp add: caustic_get_height_def Let_def)

lemma water_dhdx_deriv:
  "((\<lambda>x. water_get_height (Vec2 x z) t) has_real_derivative water_dhdx (Vec2 x z) t) (at x)"
  unfolding water_get_height_def water_dhdx_def Let_def vec2.sel
  by (auto intro!: derivative_eq_intros)

lemma water_dhdy_deriv:
  "((\<lambda>z. water_get_height (Vec2 x z) t) has_real_derivative water_dhdy (Vec2 x z) t) (at z)"
  unfolding water_get_height_def water_dhdy_def Let_def vec2.sel
  by (auto intro!: derivative_eq_intros)

lemma caustic_dhdx_deriv:
  "((\<lambda>x. caustic_get_height (Vec2 x z) t) has_real_derivative caustic_dhdx (Vec2 x z) t) (at x)"
  unfolding caustic_get_height_def caustic_dhdx_def Let_def vec2.sel
  by (auto intro!: derivative_eq_intros)

lemma caustic_dhdy_deriv:
  "((\<lambda>z. caustic_get_height (Vec2 x z) t) has_real_derivative caustic_dhdy (Vec2 x z) t) (at z)"
  unfolding caustic_get_height_def caustic_dhdy_def Let_def vec2.sel
  by (auto intro!: derivative_eq_intros)

text \<open>
  Claim C5. For all \<open>x\<close>, \<open>z\<close> and \<open>t\<close> the height of the wave field is
  \<open>5 + 0.5 sin(x + t) + 0.2 cos(z + 3t) + 0.1 sin(x + 2z + t)\<close>, and \<^verbatim>\<open>dhdx\<close> and \<^verbatim>\<open>dhdy\<close>
  are its partial derivatives in \<open>x\<close> and in \<open>z\<close>, in the water vertex shader and in
  the caustic vertex shader alike.
\<close>

theorem wave_slope_is_analytic_derivative:
  "water_get_height (Vec2 x z) t
     = 5 + 0.5 * sin (x + t) + 0.2 * cos (z + 3 * t) + 0.1 * sin (x + 2 * z + t)
   \<and> ((\<lambda>x. water_get_height (Vec2 x z) t) has_real_derivative water_dhdx (Vec2 x z) t) (at x)
   \<and> ((\<lambda>z. water_get_height (Vec2 x z) t) has_real_derivative water_dhdy (Vec2 x z) t) (at z)
   \<and> caustic_get_height (Vec2 x z) t
     = 5 + 0.5 * sin (x + t) + 0.2 * cos (z + 3 * t) + 0.1 * sin (x + 2 * z + t)
   \<and> ((\<lambda>x. caustic_get_height (Vec2 x z) t) has_real_derivative caustic_dhdx (Vec2 x z) t) (at x)
   \<and> ((\<lambda>z. caustic_get_height (Vec2 x z) t) has_real_derivative caustic_dhdy (Vec2 x z) t) (at z)"
  using water_height_formula water_dhdx_deriv water_dhdy_deriv
    caustic_height_formula caustic_dhdx_deriv caustic_dhdy_deriv
  by blast

section \<open>Properties of the Schlick reflectance\<close>

lemma pow_5: "0 \<le> a \<Longrightarrow> pow a 5 = a ^ 5"
  by (cases "a = 0") (simp_all add: pow_def)

lemma water_coef_schlick: "c \<le> 1 \<Longrightarrow> water_coef n1 n2 c = schlick_R n1 n2 c"
  by (simp add: water_coef_def schlick_R_def Let_def pow_5 power2_eq_square)




lemma caustic_fragment_alpha:
  "v4w (caustic_fragment_main n sl sd) = 1 - caustic_coef 1.0 1.333 (dot (normalize n) sd)"
  by (simp add: caustic_fragment_main_def Let_def vec4_of_def)

lemma water_main_split:
  "water_main g =
     (let V = normalize (sub3 (w_camera_position g) (w_position g));
          R = water_coef 1.0 1.333 (dot (normalize (w_normal g)) (w_sun_direction g))
      in vec4_of (add3 (scale3 (xyz (w_tex g (water_reflect g V))) R)
                       (scale3 (water_get_refract g V 1.0 1.333) (1 - R))) 1.0)"
  by (simp add: water_main_def Let_def)



section \<open>Properties of the refraction routine\<close>

lemma normalize_up: "normalize (Vec3 0 1 0) = Vec3 0 1 0"
  by (simp add: normalize_def length3_def dot_def div3_def)

lemma caustic_get_refract_formula:
  "caustic_get_refract D n1 n2 N P =
     add3 (Vec3 (v3x P) 0 (v3y P))
          (scale3 (sub3 (straight_floor_hit D P) (Vec3 (v3x P) 0 (v3y P)))
                  ((n1 / n2) * (dot (normalize N) D
                     / sqrt (1 - (n1 * sqrt (1 - (dot (normalize N) D)\<^sup>2) / n2)\<^sup>2))))"
  by (simp add: caustic_get_refract_def Let_def straight_floor_hit_def add3_def sub3_def
      scale3_def div3_def power2_eq_square)

lemma caustic_get_refract_up:
  "caustic_get_refract (Vec3 0 1 0) n1 n2 (Vec3 0 1 0) P
     = Vec3 (v3x P) 0 (v3y P + (v3z P - v3y P) * n1 / n2)"
  by (simp add: caustic_get_refract_def Let_def normalize_up dot_def add3_def sub3_def
      scale3_def div3_def)

lemma water_landing:
  "water_get_refract g D n1 n2 =
     (let landing = caustic_get_refract D n1 n2 (w_normal g) (w_position g)
      in if v3x landing > 0 \<and> v3z landing > 0 \<and> v3x landing < w_floor_width g
            \<and> v3z landing < w_floor_height g
         then water_get_floor g landing
         else xyz (w_tex g (normalize (sub3 landing (w_position g)))))"
  unfolding water_get_refract_def caustic_get_refract_def Let_def by (rule refl)

lemma probe_floor:
  "water_get_floor (probe_fragment c s P N) pos = Vec3 (v3x pos / 4) (v3z pos / 4) 0"
  by (simp add: water_get_floor_def probe_fragment_def Let_def xyz_def add3_def scale3_def
      mul3_def)

text \<open>
  Claim C1. The claim: \<^verbatim>\<open>get_refract\<close> returns the horizontal projection \<open>(Px, 0, Pz)\<close> of
  the surface point plus the straight-ray horizontal offset from \<open>(Px, 0, Pz)\<close>, scaled by
  \<open>(n1/n2) * (cos_i / cos_t)\<close>. The routine takes \<open>(Px, 0, Py)\<close> for the projection, the
  height in the place of the depth, both as the base point and as the origin of the offset.
  At \<open>P = (20, 2, 3)\<close> under a vertical ray on a flat surface it lands at depth
  \<open>3666/1333\<close> where the formula of the specification gives \<open>3\<close>, and the water shader
  samples the floor there.
\<close>

theorem get_refract_projects_from_height:
  "caustic_get_refract D n1 n2 N P =
     add3 (Vec3 (v3x P) 0 (v3y P))
          (scale3 (sub3 (straight_floor_hit D P) (Vec3 (v3x P) 0 (v3y P)))
                  ((n1 / n2) * (dot (normalize N) D
                     / sqrt (1 - (n1 * sqrt (1 - (dot (normalize N) D)\<^sup>2) / n2)\<^sup>2))))
   \<and> caustic_get_refract (Vec3 0 1 0) 1.0 1.333 (Vec3 0 1 0) (Vec3 20 2 3) = Vec3 20 0 (3666 / 1333)
   \<and> spec_landing_point (Vec3 0 1 0) 1.0 1.333 (Vec3 0 1 0) (Vec3 20 2 3) = Vec3 20 0 3
   \<and> water_get_refract (probe_fragment (Vec3 20 3 3) (Vec3 0 1 0) (Vec3 20 2 3) (Vec3 0 1 0))
        (Vec3 0 1 0) 1.0 1.333 = Vec3 5 (3666 / 5332) 0"
proof (intro conjI)
  show "caustic_get_refract (Vec3 0 1 0) 1.0 1.333 (Vec3 0 1 0) (Vec3 20 2 3) = Vec3 20 0 (3666 / 1333)"
    by (simp add: caustic_get_refract_up)
  show "spec_landing_point (Vec3 0 1 0) 1.0 1.333 (Vec3 0 1 0) (Vec3 20 2 3) = Vec3 20 0 3"
    by (simp add: spec_landing_point_def Let_def straight_floor_hit_def dot_def add3_def
        sub3_def scale3_def)
  show "water_get_refract (probe_fragment (Vec3 20 3 3) (Vec3 0 1 0) (Vec3 20 2 3) (Vec3 0 1 0))
        (Vec3 0 1 0) 1.0 1.333 = Vec3 5 (3666 / 5332) 0"
    by (simp add: water_landing Let_def probe_floor)
       (simp add: probe_fragment_def caustic_get_refract_up)
qed (rule caustic_get_refract_formula)

text \<open>
  Claim C4. The claim: with normal \<open>(0, 1, 0)\<close> and direction \<open>(0, 1, 0)\<close> the landing point
  is the straight-ray floor intersection \<open>(Px, 0, Pz)\<close> for every surface point. The routine
  returns \<open>(Px, 0, Py + (Pz - Py) * n1 / n2)\<close>; at \<open>P = (20, 5, 0)\<close> that is depth
  \<open>1665/1333\<close>, not \<open>0\<close>.
\<close>

theorem get_refract_normal_incidence:
  "caustic_get_refract (Vec3 0 1 0) n1 n2 (Vec3 0 1 0) P
     = Vec3 (v3x P) 0 (v3y P + (v3z P - v3y P) * n1 / n2)
   \<and> straight_floor_hit (Vec3 0 1 0) P = Vec3 (v3x P) 0 (v3z P)
   \<and> caustic_get_refract (Vec3 0 1 0) 1.0 1.333 (Vec3 0 1 0) (Vec3 20 5 0) = Vec3 20 0 (1665 / 1333)
   \<and> straight_floor_hit (Vec3 0 1 0) (Vec3 20 5 0) = Vec3 20 0 0
   \<and> water_get_refract (probe_fragment (Vec3 20 6 0) (Vec3 0 1 0) (Vec3 20 5 0) (Vec3 0 1 0))
        (Vec3 0 1 0) 1.0 1.333 = Vec3 5 (1665 / 5332) 0"
proof (intro conjI)
  show "caustic_get_refract (Vec3 0 1 0) n1 n2 (Vec3 0 1 0) P
     = Vec3 (v3x P) 0 (v3y P + (v3z P - v3y P) * n1 / n2)"
    by (rule caustic_get_refract_up)
  show "straight_floor_hit (Vec3 0 1 0) P = Vec3 (v3x P) 0 (v3z P)"
    by (simp add: straight_floor_hit_def)
  show "caustic_get_refract (Vec3 0 1 0) 1.0 1.333 (Vec3 0 1 0) (Vec3 20 5 0) = Vec3 20 0 (1665 / 1333)"
    by (simp add: caustic_get_refract_up)
  show "straight_floor_hit (Vec3 0 1 0) (Vec3 20 5 0) = Vec3 20 0 0"
    by (simp add: straight_floor_hit_def)
  show "water_get_refract (probe_fragment (Vec3 20 6 0) (Vec3 0 1 0) (Vec3 20 5 0) (Vec3 0 1 0))
        (Vec3 0 1 0) 1.0 1.333 = Vec3 5 (1665 / 5332) 0"
    by (simp add: water_landing Let_def probe_floor)
       (simp add: probe_fragment_def caustic_get_refract_up)
qed

lemma lit_sel:
  "w_ambient_light (lit_fragment c s P N) = Vec3 (1 / 5) (1 / 5) (1 / 5)"
  "w_sun_light (lit_fragment c s P N) = Vec3 1 (9 / 10) (4 / 5)"
  "w_sun_direction (lit_fragment c s P N) = s"
  "w_position (lit_fragment c s P N) = P"
  "w_normal (lit_fragment c s P N) = N"
  "w_tex (lit_fragment c s P N) d = Vec4 (v3x d) (v3y d) (v3z d) 1"
  "w_floor_tex (lit_fragment c s P N) p = Vec4 (v2x p) (v2y p) (1 / 2) 1"
  "w_caustics_tex (lit_fragment c s P N) p = Vec4 1 1 1 (v2x p)"
  "w_floor_width (lit_fragment c s P N) = 40"
  "w_floor_height (lit_fragment c s P N) = 8"
  by (simp_all add: lit_fragment_def)

lemma normalize_down: "normalize (Vec3 0 (- 5) 0) = Vec3 0 (- 1) 0"
proof -
  have "sqrt 25 = 5" by (rule real_sqrt_unique) simp_all
  then show ?thesis by (simp add: normalize_def length3_def dot_def div3_def)
qed

text \<open>
  Claim C8. The claim: the water-pass \<^verbatim>\<open>get_refract\<close> returns the lit floor at the landing
  point exactly when the landing point lies inside \<open>0 < x < floor_width\<close> and
  \<open>0 < z < floor_height\<close>, and the backdrop along \<open>normalize(landing - P)\<close> otherwise.
  For the fragment at \<open>P = (20, 5, 0)\<close> with normal \<open>(0, 1, 0)\<close>, seen from straight above,
  the landing point of the specification is \<open>(20, 0, 0)\<close>, on the edge and so outside the
  extent, and the claim gives the backdrop along \<open>(0, -1, 0)\<close>. The routine tests the
  point it computes from the misplaced projection, \<open>(20, 0, 1665/1333)\<close>, finds it inside
  and returns the lit floor there: floor texel plus weighted caustic light, times the
  ambient light, plus the same times the diffuse sun light.
\<close>

theorem water_refract_samples_floor_off_extent:
  "spec_landing_point (Vec3 0 1 0) 1.0 1.333 (Vec3 0 1 0) (Vec3 20 5 0) = Vec3 20 0 0
   \<and> spec_water_refract
         (lit_fragment (Vec3 20 6 0) (Vec3 (3 / 5) (4 / 5) 0) (Vec3 20 5 0) (Vec3 0 1 0))
         (Vec3 0 1 0) 1.0 1.333
       = Vec3 0 (- 1) 0
   \<and> caustic_get_refract (Vec3 0 1 0) 1.0 1.333 (Vec3 0 1 0) (Vec3 20 5 0)
       = Vec3 20 0 (1665 / 1333)
   \<and> water_get_refract
         (lit_fragment (Vec3 20 6 0) (Vec3 (3 / 5) (4 / 5) 0) (Vec3 20 5 0) (Vec3 0 1 0))
         (Vec3 0 1 0) 1.0 1.333
       = water_get_floor
           (lit_fragment (Vec3 20 6 0) (Vec3 (3 / 5) (4 / 5) 0) (Vec3 20 5 0) (Vec3 0 1 0))
           (Vec3 20 0 (1665 / 1333))
   \<and> water_get_floor
         (lit_fragment (Vec3 20 6 0) (Vec3 (3 / 5) (4 / 5) 0) (Vec3 20 5 0) (Vec3 0 1 0))
         (Vec3 20 0 (1665 / 1333))
       = Vec3 (11 / 2) (99613 / 133300) (21 / 25)"
proof (intro conjI)
  let ?g = "lit_fragment (Vec3 20 6 0) (Vec3 (3 / 5) (4 / 5) 0) (Vec3 20 5 0) (Vec3 0 1 0)"
  show s: "spec_landing_point (Vec3 0 1 0) 1.0 1.333 (Vec3 0 1 0) (Vec3 20 5 0) = Vec3 20 0 0"
    by (simp add: spec_landing_point_def Let_def straight_floor_hit_def dot_def add3_def
        sub3_def scale3_def)
  have s': "spec_landing_point (Vec3 0 1 0) 1 (1333 / 1000) (Vec3 0 1 0) (Vec3 20 5 0)
              = Vec3 20 0 0"
    using s by simp
  show "spec_water_refract ?g (Vec3 0 1 0) 1.0 1.333 = Vec3 0 (- 1) 0"
    by (simp add: spec_water_refract_def Let_def lit_sel s' sub3_def normalize_down xyz_def)
  show c: "caustic_get_refract (Vec3 0 1 0) 1.0 1.333 (Vec3 0 1 0) (Vec3 20 5 0)
       = Vec3 20 0 (1665 / 1333)"
    by (simp add: caustic_get_refract_up)
  have c': "caustic_get_refract (Vec3 0 1 0) 1 (1333 / 1000) (Vec3 0 1 0) (Vec3 20 5 0)
       = Vec3 20 0 (1665 / 1333)"
    using c by simp
  show "water_get_refract ?g (Vec3 0 1 0) 1.0 1.333
          = water_get_floor ?g (Vec3 20 0 (1665 / 1333))"
    by (simp add: water_landing Let_def lit_sel c')
  show "water_get_floor ?g (Vec3 20 0 (1665 / 1333)) = Vec3 (11 / 2) (99613 / 133300) (21 / 25)"
    by (simp add: water_get_floor_def Let_def lit_sel xyz_def add3_def scale3_def mul3_def
        water_diffuse_def dot_def)
qed

section \<open>Unit vectors\<close>

lemma cauchy_schwarz3: "(dot a b)\<^sup>2 \<le> dot a a * dot b b"
proof -
  have "dot a a * dot b b - (dot a b)\<^sup>2
        = (v3x a * v3y b - v3y a * v3x b)\<^sup>2 + (v3x a * v3z b - v3z a * v3x b)\<^sup>2
          + (v3y a * v3z b - v3z a * v3y b)\<^sup>2"
    by (simp add: dot_def power2_eq_square algebra_simps)
  moreover have "0 \<le> (v3x a * v3y b - v3y a * v3x b)\<^sup>2 + (v3x a * v3z b - v3z a * v3x b)\<^sup>2
          + (v3y a * v3z b - v3z a * v3y b)\<^sup>2"
    by simp
  ultimately show ?thesis by linarith
qed

lemma unit_dot: "length3 v = 1 \<Longrightarrow> dot v v = 1"
  by (simp add: length3_def)

lemma unit_normalize: "length3 v = 1 \<Longrightarrow> normalize v = v"
  by (simp add: normalize_def div3_def)

lemma unit_cosine:
  assumes "length3 N = 1" "length3 D = 1"
  shows "(dot N D) * (dot N D) \<le> 1"
  using cauchy_schwarz3 [of N D] assms by (simp add: unit_dot power2_eq_square)

lemma length3_up: "length3 (Vec3 0 1 0) = 1"
  by (simp add: length3_def dot_def)

section \<open>Properties of the water pass\<close>

lemma probe_sel:
  "w_camera_position (probe_fragment c s P N) = c"
  "w_sun_direction (probe_fragment c s P N) = s"
  "w_position (probe_fragment c s P N) = P"
  "w_normal (probe_fragment c s P N) = N"
  "w_tex (probe_fragment c s P N) d = Vec4 9 9 9 1"
  "w_floor_width (probe_fragment c s P N) = 40"
  "w_floor_height (probe_fragment c s P N) = 8"
  by (simp_all add: probe_fragment_def)

lemma probe_refract_up:
  "water_get_refract (probe_fragment (Vec3 20 6 4) s (Vec3 20 5 4) (Vec3 0 1 0))
     (Vec3 0 1 0) 1 (1333 / 1000) = Vec3 5 (5665 / 5332) 0"
  by (simp add: water_landing Let_def probe_floor probe_sel caustic_get_refract_up)

lemma probe_view_up:
  "normalize (sub3 (Vec3 20 6 4) (Vec3 20 5 4)) = Vec3 0 1 0"
  by (simp add: sub3_def normalize_up)

lemma pow_fifth: "pow (1 / 5) 5 = 1 / 3125"
  by (simp add: pow_def power_divide)

lemma length3_normalize:
  assumes "length3 v \<noteq> 0"
  shows "length3 (normalize v) = 1"
proof -
  have nn: "0 \<le> dot v v" by (simp add: dot_def)
  have sq: "length3 v * length3 v = dot v v"
    using nn by (simp add: length3_def)
  have "dot (normalize v) (normalize v) = dot v v / (length3 v * length3 v)"
    by (simp add: normalize_def div3_def dot_def add_divide_distrib)
  also have "\<dots> = 1"
    using assms by (simp add: sq [symmetric])
  finally show ?thesis by (simp add: length3_def)
qed

lemma cosine_le_1:
  assumes "length3 N \<noteq> 0" and "length3 D = 1"
  shows "dot (normalize N) D \<le> 1"
proof -
  have "dot (normalize N) D * dot (normalize N) D \<le> 1"
    using unit_cosine [OF length3_normalize [OF assms(1)] assms(2)] .
  then have "(dot (normalize N) D)\<^sup>2 \<le> 1\<^sup>2"
    by (simp add: power2_eq_square)
  then show ?thesis
    by (rule power2_le_imp_le) simp
qed

lemma length3_sun: "length3 (Vec3 (3 / 5) (4 / 5) 0) = 1"
  by (simp add: length3_def dot_def)

text \<open>
  Claim C2, as amended. In the water pass the reflect weight is \<^verbatim>\<open>coef\<close> computed from
  \<open>cosine = dot(normalize(normal), sun_direction)\<close>, the direction of the sun and not
  the direction of the viewer; for a normal that is not zero and a unit sun direction it
  is Schlick's reflectance at that cosine. The output colour is \<open>reflect_weight *
  reflected_color + transmit_weight * transmitted_color\<close> with \<open>transmit_weight = 1 -
  reflect_weight\<close>, the reflected colour being the backdrop along the mirrored viewer
  direction and the transmitted colour the result of \<^verbatim>\<open>get_refract\<close> for the viewer
  direction.
\<close>

theorem water_main_weights_against_sun:
  "water_main g =
     (let V = normalize (sub3 (w_camera_position g) (w_position g));
          cosine = dot (normalize (w_normal g)) (w_sun_direction g);
          reflect_weight = water_coef 1.0 1.333 cosine;
          transmit_weight = 1 - reflect_weight;
          reflected_color = xyz (w_tex g (water_reflect g V));
          transmitted_color = water_get_refract g V 1.0 1.333
      in vec4_of (add3 (scale3 reflected_color reflect_weight)
                       (scale3 transmitted_color transmit_weight)) 1)
   \<and> (length3 (w_normal g) \<noteq> 0 \<and> length3 (w_sun_direction g) = 1 \<longrightarrow>
        water_coef 1.0 1.333 (dot (normalize (w_normal g)) (w_sun_direction g))
          = schlick_R 1.0 1.333 (dot (normalize (w_normal g)) (w_sun_direction g)))"
  using cosine_le_1 [of "w_normal g" "w_sun_direction g"]
  by (simp add: water_main_split Let_def water_coef_schlick)

theorem water_main_weights_against_sun_witness:
  "length3 (Vec3 0 1 0) \<noteq> 0 \<and> length3 (Vec3 (3 / 5) (4 / 5) 0) = 1
   \<and> water_coef 1.0 1.333 (4 / 5) = schlick_R 1.0 1.333 (4 / 5)
   \<and> water_main (probe_fragment (Vec3 20 6 4) (Vec3 (3 / 5) (4 / 5) 0) (Vec3 20 5 4) (Vec3 0 1 0))
       = Vec4 (5 + 4 * water_coef 1.0 1.333 (4 / 5))
              (5665 / 5332 + (9 - 5665 / 5332) * water_coef 1.0 1.333 (4 / 5))
              (9 * water_coef 1.0 1.333 (4 / 5)) 1"
proof -
  let ?g = "probe_fragment (Vec3 20 6 4) (Vec3 (3 / 5) (4 / 5) 0) (Vec3 20 5 4) (Vec3 0 1 0)"
  have d: "dot (normalize (w_normal ?g)) (w_sun_direction ?g) = 4 / 5"
    by (simp add: probe_sel normalize_up dot_def)
  have u: "length3 (w_normal ?g) \<noteq> 0 \<and> length3 (w_sun_direction ?g) = 1"
    by (simp add: probe_sel length3_up length3_sun)
  note t = water_main_weights_against_sun [of ?g, unfolded d]
  have a: "water_coef 1.0 1.333 (4 / 5) = schlick_R 1.0 1.333 (4 / 5)"
    using t u by blast
  have b: "water_main ?g = Vec4 (5 + 4 * water_coef 1.0 1.333 (4 / 5))
              (5665 / 5332 + (9 - 5665 / 5332) * water_coef 1.0 1.333 (4 / 5))
              (9 * water_coef 1.0 1.333 (4 / 5)) 1"
    using t
    by (simp add: Let_def probe_sel probe_view_up probe_refract_up xyz_def vec4_of_def add3_def
        scale3_def algebra_simps)
  show ?thesis using a b length3_up length3_sun by simp
qed

text \<open>
  Claim C2 as stated fails: for a fragment at \<open>(20, 5, 4)\<close> with normal \<open>(0, 1, 0)\<close>, seen
  from straight above and lit from \<open>(0.6, 0.8, 0)\<close>, the shader weights with the cosine
  \<open>0.8\<close> of the sun, not with the cosine \<open>1\<close> of the viewer, and the colours differ.
\<close>

theorem water_main_not_against_viewer:
  "water_main (probe_fragment (Vec3 20 6 4) (Vec3 (3 / 5) (4 / 5) 0) (Vec3 20 5 4) (Vec3 0 1 0))
     \<noteq> spec_water_main
          (probe_fragment (Vec3 20 6 4) (Vec3 (3 / 5) (4 / 5) 0) (Vec3 20 5 4) (Vec3 0 1 0))"
proof -
  let ?g = "probe_fragment (Vec3 20 6 4) (Vec3 (3 / 5) (4 / 5) 0) (Vec3 20 5 4) (Vec3 0 1 0)"
  have w: "v4z (water_main ?g) = 9 * water_coef 1 (1333 / 1000) (4 / 5)"
    by (simp add: water_main_split Let_def probe_sel probe_view_up probe_refract_up xyz_def
        vec4_of_def add3_def scale3_def normalize_up dot_def)
  have s: "v4z (spec_water_main ?g) = 9 * schlick_R 1 (1333 / 1000) 1"
    by (simp add: spec_water_main_def Let_def probe_sel probe_view_up probe_refract_up xyz_def
        vec4_of_def add3_def scale3_def normalize_up dot_def)
  have "water_coef 1 (1333 / 1000) (4 / 5) \<noteq> schlick_R 1 (1333 / 1000) 1"
    by (simp add: water_coef_def schlick_R_def Let_def pow_fifth power2_eq_square)
  then have "v4z (water_main ?g) \<noteq> v4z (spec_water_main ?g)"
    using w s by simp
  then show ?thesis by auto
qed

section \<open>Properties of the caustic pass\<close>

lemma caustic_vertex_main_eq:
  "caustic_vertex_main model time sun_direction in_position =
     (let position = xyz (mat4_mul_vec4 model
            (Vec4 (v2x in_position) (caustic_get_height in_position time) (v2y in_position) 1));
          normal = normalize (Vec3 (- caustic_dhdx in_position time) 1
                                   (- caustic_dhdy in_position time));
          landing = caustic_get_refract sun_direction 1 (133 / 100) normal position
      in Vec4 (v3x landing / 40 * 2 - 1) (v3z landing / 8 * 2 - 1) 0 1)"
  by (simp add: caustic_vertex_main_def Let_def xz_def vec4_of_def)

lemma crest_vertex:
  "caustic_get_height (Vec2 (pi / 2) 0) 0 = 29 / 5"
  "caustic_dhdx (Vec2 (pi / 2) 0) 0 = 0"
  "caustic_dhdy (Vec2 (pi / 2) 0) 0 = 0"
  by (simp_all add: caustic_get_height_def caustic_dhdx_def caustic_dhdy_def Let_def)

lemma mat4_identity: "xyz (mat4_mul_vec4 (mat4_diag 1) (Vec4 a b c 1)) = Vec3 a b c"
  by (simp add: mat4_diag_def mat4_mul_vec4_def xyz_def)

lemma sqrt_9_25: "sqrt (9 / 25) = 3 / 5"
  by (rule real_sqrt_unique) (simp_all add: power2_eq_square)

lemma oblique_landing_x:
  "v3x (caustic_get_refract (Vec3 (3 / 5) (4 / 5) 0) 1 n2 (Vec3 0 1 0) (Vec3 a (29 / 5) 0))
     = a - 87 / 20 * (1 / n2 * (4 / 5) / sqrt (1 - (3 / 5 / n2)\<^sup>2))"
proof -
  have "(1::real) - 4 / 5 * (4 / 5) = 9 / 25" by simp
  then show ?thesis
    by (simp add: caustic_get_refract_def Let_def normalize_up dot_def add3_def sub3_def
        scale3_def div3_def sqrt_9_25 power2_eq_square)
qed

lemma index_factor_differs:
  "1 / (1333 / 1000) * (4 / 5) / sqrt (1 - (3 / 5 / (1333 / 1000))\<^sup>2)
     < 1 / (133 / 100) * (4 / 5) / sqrt (1 - (3 / 5 / (133 / 100))\<^sup>2 :: real)"
proof -
  have a: "(1::real) - (3 / 5 / (133 / 100))\<^sup>2 = 14089 / 17689"
    by (simp add: power2_eq_square)
  have b: "(1::real) - (3 / 5 / (1333 / 1000))\<^sup>2 = 1416889 / 1776889"
    by (simp add: power2_eq_square)
  have "(14089 / 17689 :: real) \<le> 1416889 / 1776889" by simp
  then have le: "sqrt (14089 / 17689) \<le> sqrt (1416889 / 1776889)"
    by (subst real_sqrt_le_iff)
  have pos: "0 < sqrt (14089 / 17689)" by simp
  have "(1::real) / (1333 / 1000) * (4 / 5) < 1 / (133 / 100) * (4 / 5)" by simp
  moreover have "(0::real) \<le> 1 / (1333 / 1000) * (4 / 5)" by simp
  ultimately have "1 / (1333 / 1000) * (4 / 5) / sqrt (1416889 / 1776889)
      < 1 / (133 / 100) * (4 / 5) / sqrt (14089 / 17689)"
    using le pos by (intro frac_less) simp_all
  then show ?thesis unfolding a b .
qed

lemma normalize_x: "normalize (Vec3 1 0 0) = Vec3 1 0 0"
  by (simp add: normalize_def length3_def dot_def div3_def)

text \<open>
  Claim C3. The claim: the value written for a wave-field vertex is \<open>(light_color, 1 - R)\<close>
  with \<open>R\<close> taken at the wave-field normal of that vertex. The fragment shader takes
  \<open>R\<close> at its input \<^verbatim>\<open>normal\<close>, which the vertex shader never writes: the value written
  is a function of whatever that input holds. With \<open>(1, 0, 0)\<close> there the weight is \<open>0\<close>,
  with \<open>(0, 1, 0)\<close> it is \<open>5332000/5442889\<close>; for the vertex \<open>(pi/2, 0)\<close> at time \<open>0\<close>,
  whose wave-field normal is \<open>(0, 1, 0)\<close>, under a vertical light, the claim gives the
  latter whatever the input holds.
\<close>

theorem caustic_fragment_reads_unwritten_normal:
  "caustic_fragment_main n sun_light sun_direction
     = vec4_of sun_light (1 - caustic_coef 1.0 1.333 (dot (normalize n) sun_direction))
   \<and> caustic_fragment_main (Vec3 1 0 0) (Vec3 1 0.9 0.8) (Vec3 0 1 0) = Vec4 1 0.9 0.8 0
   \<and> caustic_fragment_main (Vec3 0 1 0) (Vec3 1 0.9 0.8) (Vec3 0 1 0)
       = Vec4 1 0.9 0.8 (5332000 / 5442889)
   \<and> spec_caustic_value 0 (Vec3 0 1 0) (Vec3 1 0.9 0.8) (Vec2 (pi / 2) 0)
       = Vec4 1 0.9 0.8 (5332000 / 5442889)"
proof (intro conjI)
  show "caustic_fragment_main n sun_light sun_direction
     = vec4_of sun_light (1 - caustic_coef 1.0 1.333 (dot (normalize n) sun_direction))"
    by (simp add: caustic_fragment_main_def Let_def)
  show "caustic_fragment_main (Vec3 1 0 0) (Vec3 1 0.9 0.8) (Vec3 0 1 0) = Vec4 1 0.9 0.8 0"
    by (simp add: caustic_fragment_main_def Let_def normalize_x dot_def caustic_coef_def
        pow_def vec4_of_def)
  show "caustic_fragment_main (Vec3 0 1 0) (Vec3 1 0.9 0.8) (Vec3 0 1 0)
       = Vec4 1 0.9 0.8 (5332000 / 5442889)"
    by (simp add: caustic_fragment_main_def Let_def normalize_up dot_def caustic_coef_def
        pow_def vec4_of_def power2_eq_square)
  show "spec_caustic_value 0 (Vec3 0 1 0) (Vec3 1 0.9 0.8) (Vec2 (pi / 2) 0)
       = Vec4 1 0.9 0.8 (5332000 / 5442889)"
    by (simp add: spec_caustic_value_def Let_def crest_vertex normalize_up dot_def
        schlick_R_def vec4_of_def power2_eq_square)
qed

text \<open>
  Claim C6. The claim: every use of the optical model and of the refraction routine takes
  \<open>n1 = 1.0\<close> and \<open>n2 = 1.333\<close>. The caustic vertex shader calls \<^verbatim>\<open>get_refract\<close> with
  \<open>1.33\<close>, while both fragment shaders and the water-pass call take \<open>1.333\<close>; for the
  vertex \<open>(pi/2, 0)\<close> at time \<open>0\<close> under the light direction \<open>(0.6, 0.8, 0)\<close> the
  projected position lies to the left of the one that \<open>1.333\<close> gives.
\<close>

theorem caustic_refraction_index_133:
  "caustic_vertex_main model time sun_direction in_position =
     (let position = xyz (mat4_mul_vec4 model
            (Vec4 (v2x in_position) (caustic_get_height in_position time) (v2y in_position) 1));
          normal = normalize (Vec3 (- caustic_dhdx in_position time) 1
                                   (- caustic_dhdy in_position time));
          landing = caustic_get_refract sun_direction 1 (133 / 100) normal position
      in Vec4 (v3x landing / 40 * 2 - 1) (v3z landing / 8 * 2 - 1) 0 1)
   \<and> v4w (caustic_fragment_main n sl sd)
       = 1 - caustic_coef 1 (1333 / 1000) (dot (normalize n) sd)
   \<and> water_main g =
       (let V = normalize (sub3 (w_camera_position g) (w_position g));
            R = water_coef 1 (1333 / 1000) (dot (normalize (w_normal g)) (w_sun_direction g))
        in vec4_of (add3 (scale3 (xyz (w_tex g (water_reflect g V))) R)
                         (scale3 (water_get_refract g V 1 (1333 / 1000)) (1 - R))) 1)
   \<and> v4x (caustic_vertex_main (mat4_diag 1) 0 (Vec3 (3 / 5) (4 / 5) 0) (Vec2 (pi / 2) 0))
       < v4x (spec_caustic_vertex_main (mat4_diag 1) 0 (Vec3 (3 / 5) (4 / 5) 0)
                (Vec2 (pi / 2) 0))"
proof (intro conjI)
  show "v4w (caustic_fragment_main n sl sd)
       = 1 - caustic_coef 1 (1333 / 1000) (dot (normalize n) sd)"
    using caustic_fragment_alpha [of n sl sd] by simp
  show "water_main g =
       (let V = normalize (sub3 (w_camera_position g) (w_position g));
            R = water_coef 1 (1333 / 1000) (dot (normalize (w_normal g)) (w_sun_direction g))
        in vec4_of (add3 (scale3 (xyz (w_tex g (water_reflect g V))) R)
                         (scale3 (water_get_refract g V 1 (1333 / 1000)) (1 - R))) 1)"
    using water_main_split [of g] by simp
  let ?k = "\<lambda>n2::real. 1 / n2 * (4 / 5) / sqrt (1 - (3 / 5 / n2)\<^sup>2)"
  have c: "v4x (caustic_vertex_main (mat4_diag 1) 0 (Vec3 (3 / 5) (4 / 5) 0) (Vec2 (pi / 2) 0))
        = (pi / 2 - 87 / 20 * ?k (133 / 100)) / 40 * 2 - 1"
    by (simp add: caustic_vertex_main_eq Let_def crest_vertex mat4_identity normalize_up
        oblique_landing_x)
  have s: "v4x (spec_caustic_vertex_main (mat4_diag 1) 0 (Vec3 (3 / 5) (4 / 5) 0)
                 (Vec2 (pi / 2) 0))
        = (pi / 2 - 87 / 20 * ?k (1333 / 1000)) / 40 * 2 - 1"
    by (simp add: spec_caustic_vertex_main_def Let_def crest_vertex mat4_identity normalize_up
        oblique_landing_x)
  show "v4x (caustic_vertex_main (mat4_diag 1) 0 (Vec3 (3 / 5) (4 / 5) 0) (Vec2 (pi / 2) 0))
       < v4x (spec_caustic_vertex_main (mat4_diag 1) 0 (Vec3 (3 / 5) (4 / 5) 0)
                (Vec2 (pi / 2) 0))"
    unfolding c s using index_factor_differs by simp
qed (rule caustic_vertex_main_eq)

section \<open>Properties of the render loop\<close>

lemma gl_run_append:
  "gl_run (cs @ ds) s =
     (case gl_run cs s of (es, s') \<Rightarrow> (case gl_run ds s' of (es', s'') \<Rightarrow> (es @ es', s'')))"
  by (induction cs arbitrary: s) (auto split: prod.splits)

lemma caustics_pass_events:
  "fst (gl_run caustics_pass s)
     = [Cleared Caustics_fbo (Vec4 0 0 0 0), Drawn Caustics_program Caustics_fbo []]"
  by (simp add: caustics_pass_def sampled_def samplers_def)

lemma environment_pass_events:
  "fst (gl_run (environment_pass w h) s)
     = [Cleared Default_framebuffer (Vec4 0.8 0.8 1 0),
        Drawn Env_program Default_framebuffer [Some Env_tex]]"
  "draw_framebuffer (snd (gl_run (environment_pass w h) s)) = Default_framebuffer"
  by (simp_all add: environment_pass_def sampled_def samplers_def)

lemma floor_pass_events:
  "fst (gl_run floor_pass s)
     = [Drawn Floor_program (draw_framebuffer s) [Some Tex, Some Caustics_tex]]"
  "draw_framebuffer (snd (gl_run floor_pass s)) = draw_framebuffer s"
  by (simp_all add: floor_pass_def sampled_def samplers_def)

lemma water_pass_events:
  "fst (gl_run water_pass s)
     = [Drawn Water_program (draw_framebuffer s) [Some Env_tex, Some Tex, Some Caustics_tex]]"
  by (simp add: water_pass_def sampled_def samplers_def)

lemma gl_run_append_fst:
  "fst (gl_run (cs @ ds) s) = fst (gl_run cs s) @ fst (gl_run ds (snd (gl_run cs s)))"
  by (simp add: gl_run_append split: prod.splits)

lemma gl_run_append_snd:
  "snd (gl_run (cs @ ds) s) = snd (gl_run ds (snd (gl_run cs s)))"
  by (simp add: gl_run_append split: prod.splits)

lemma frame_events:
  "fst (gl_run (caustics_pass @ environment_pass w h @ floor_pass @ water_pass @ [SwapWindow]) s)
     = spec_frame"
  by (simp add: gl_run_append_fst gl_run_append_snd caustics_pass_events environment_pass_events
      floor_pass_events water_pass_events spec_frame_def)

lemma poll_events_running:
  "running (snd (poll_events evs h)) = (running h \<and> SDL_QUIT \<notin> set evs)"
proof (induction evs arbitrary: h)
  case Nil
  show ?case by simp
next
  case (Cons e evs)
  show ?case
    using Cons.IH by (cases e) (simp_all add: case_prod_beta)
qed

lemma gl_exec_Viewport: "gl_exec (Viewport x y w t) s = ([], s)"
  by simp

lemma poll_events_no_gl_event:
  "fst (gl_run (fst (poll_events evs h)) s) = [] \<and> snd (gl_run (fst (poll_events evs h)) s) = s"
proof (induction evs arbitrary: h)
  case Nil
  show ?case by simp
next
  case (Cons e evs)
  show ?case
    using Cons.IH by (cases e) (simp_all add: case_prod_beta)
qed

text \<open>
  Claim C9, as amended. Every iteration of the render loop that is entered with
  \<^verbatim>\<open>running\<close> set and polls no quit event clears the caustic buffer to zero and draws the
  caustics pass into it, then clears the window and draws the backdrop, the floor and
  the water into it, then swaps, in this order and whatever the other events and the
  OpenGL state at entry; an iteration that polls a quit event leaves the loop before any
  pass. The caustic buffer is written by the clear and the draw of the caustics pass only,
  and sampled by the floor and the water draw only.
\<close>

theorem render_loop_pass_order:
  "(running h \<and> SDL_QUIT \<notin> set events \<longrightarrow>
      (\<exists>h' s'. loop_iteration events (h, s) = Some (spec_frame, h', s')))
   \<and> (\<not> (running h \<and> SDL_QUIT \<notin> set events) \<longrightarrow> loop_iteration events (h, s) = None)
   \<and> map (\<lambda>e. Caustics_tex \<in> writes e) spec_frame
        = [True, True, False, False, False, False, False]
   \<and> map (\<lambda>e. Caustics_tex \<in> reads e) spec_frame
        = [False, False, False, False, True, True, False]"
proof (intro conjI impI)
  obtain cs h1 where p: "poll_events events h = (cs, h1)" by force
  obtain es s1 where g: "gl_run cs s = (es, s1)" by force
  have r: "running h1 = (running h \<and> SDL_QUIT \<notin> set events)"
    using poll_events_running [of events h] p by simp
  have e: "es = []" "s1 = s"
    using poll_events_no_gl_event [of events h s] p g by simp_all
  {
    assume a: "running h \<and> SDL_QUIT \<notin> set events"
    obtain es' s' where f: "gl_run (caustics_pass @ environment_pass (width h1) (height h1)
                              @ floor_pass @ water_pass @ [SwapWindow]) s = (es', s')"
      by force
    have "es' = spec_frame"
      using frame_events [of "width h1" "height h1" s] f by simp
    then have "loop_iteration events (h, s) = Some (spec_frame, h1, s')"
      using a r p g e f by (simp add: loop_iteration_def)
    then show "\<exists>h' s'. loop_iteration events (h, s) = Some (spec_frame, h', s')" by blast
  }
  {
    assume "\<not> (running h \<and> SDL_QUIT \<notin> set events)"
    then show "loop_iteration events (h, s) = None"
      using r p g by (simp add: loop_iteration_def)
  }
  show "map (\<lambda>e. Caustics_tex \<in> writes e) spec_frame
        = [True, True, False, False, False, False, False]"
    by (simp add: spec_frame_def writes_def color_attachment_def)
  show "map (\<lambda>e. Caustics_tex \<in> reads e) spec_frame
        = [False, False, False, False, True, True, False]"
    by (simp add: spec_frame_def reads_def)
qed

theorem render_loop_pass_order_witness:
  "running (entry_host 800 600)
   \<and> SDL_QUIT \<notin> set [SDL_KEYDOWN 112, SDL_WINDOWEVENT_RESIZED 1024 768]
   \<and> (\<exists>h' s'. loop_iteration [SDL_KEYDOWN 112, SDL_WINDOWEVENT_RESIZED 1024 768]
                  (entry_host 800 600, entry_gl_state) = Some (spec_frame, h', s'))"
proof -
  have a: "running (entry_host 800 600)
           \<and> SDL_QUIT \<notin> set [SDL_KEYDOWN 112, SDL_WINDOWEVENT_RESIZED 1024 768]"
    by (simp add: entry_host_def)
  show ?thesis
    using a render_loop_pass_order [THEN conjunct1, rule_format, OF a, of entry_gl_state] by blast
qed

text \<open>
  Claim C9 as stated fails: the iteration that polls \<^verbatim>\<open>SDL_QUIT\<close> is an iteration of the
  loop and executes no pass.
\<close>

theorem quit_iteration_draws_nothing:
  "running (entry_host 800 600)
   \<and> loop_iteration [SDL_QUIT] (entry_host 800 600, entry_gl_state) = None"
  by (simp add: loop_iteration_def entry_host_def)

end
